theory Spec2Isabelle
  imports Main "HOL-Library.Sublist" "HOL-Library.Char_ord"
begin

section \<open>TritonHTTP: request parser, response builder and connection handler\<close>

text \<open>
  The repository holds two revisions of the parser and of the server:
  \<^item> \<^verbatim>\<open>src/pkg/tritonhttp/request.go\<close> and the \<^verbatim>\<open>server.go\<close> part of
    \<^verbatim>\<open>src/pkg/tritonhttp/response.go\<close> (definitions with the suffix \<open>_pkg\<close>);
  \<^item> \<^verbatim>\<open>src/unnamed/part_001\<close> (the parser, suffix \<open>_p1\<close>) and
    \<^verbatim>\<open>src/unnamed/part_000\<close> (the server, suffix \<open>_p0\<close>).
  Both are embedded, function by function. A definition without a suffix is shared by
  the two revisions (the same source text in both, or the same up to the name of a
  local) or belongs to Go's library.
\<close>

subsection \<open>Go's \<^verbatim>\<open>strings\<close> package, on byte strings\<close>

text \<open>
  A Go string is a byte sequence, here a \<^typ>\<open>string\<close>. The sources only split on the
  one-byte separators \<^verbatim>\<open>" "\<close>, \<^verbatim>\<open>":"\<close> and \<^verbatim>\<open>"."\<close>, so \<open>SplitN\<close> takes the separator as a
  character. \<open>SplitN s sep n\<close> returns at most \<open>n\<close> pieces, the last one unsplit.
\<close>

fun SplitN :: "string \<Rightarrow> char \<Rightarrow> nat \<Rightarrow> string list" where
  "SplitN s sep 0 = []"
| "SplitN s sep (Suc 0) = [s]"
| "SplitN s sep (Suc (Suc n)) =
     (if sep \<in> set s
      then takeWhile (\<lambda>c. c \<noteq> sep) s # SplitN (tl (dropWhile (\<lambda>c. c \<noteq> sep) s)) sep (Suc n)
      else [s])"

definition HasPrefix :: "string \<Rightarrow> string \<Rightarrow> bool" where
  "HasPrefix s p = prefix p s"

definition HasSuffix :: "string \<Rightarrow> string \<Rightarrow> bool" where
  "HasSuffix s p = suffix p s"

definition Contains :: "string \<Rightarrow> string \<Rightarrow> bool" where
  "Contains s sub = sublist sub s"

text \<open>\<open>TrimLeft s cutset\<close> drops the leading bytes of \<open>s\<close> that occur in \<open>cutset\<close>
  (the sources pass the cutset \<^verbatim>\<open>" "\<close>).\<close>

definition TrimLeft :: "string \<Rightarrow> string \<Rightarrow> string" where
  "TrimLeft s cutset = dropWhile (\<lambda>c. c \<in> set cutset) s"

text \<open>
  \<open>TrimSpace\<close> removes leading and trailing white space as \<^verbatim>\<open>unicode.IsSpace\<close> defines
  it: the six ASCII characters tab, line feed, vertical tab, form feed, carriage return
  and space, and the code points U+0085 and U+00A0, which are the byte pairs
  \<open>C2 85\<close> and \<open>C2 A0\<close> in UTF-8.
\<close>

definition asciiSpace :: "char \<Rightarrow> bool" where
  "asciiSpace c = (c = CHR 0x09 \<or> c = CHR 0x0A \<or> c = CHR 0x0B \<or> c = CHR 0x0C
     \<or> c = CHR 0x0D \<or> c = CHR 0x20)"

fun trimLeftSpace :: "string \<Rightarrow> string" where
  "trimLeftSpace [] = []"
| "trimLeftSpace [c] = (if asciiSpace c then [] else [c])"
| "trimLeftSpace (c # d # s) =
     (if asciiSpace c then trimLeftSpace (d # s)
      else if c = CHR 0xC2 \<and> (d = CHR 0x85 \<or> d = CHR 0xA0) then trimLeftSpace s
      else c # d # s)"

text \<open>The same from the right, on the reversed string (so the byte pairs are reversed).\<close>

fun trimRightSpace_rev :: "string \<Rightarrow> string" where
  "trimRightSpace_rev [] = []"
| "trimRightSpace_rev [c] = (if asciiSpace c then [] else [c])"
| "trimRightSpace_rev (c # d # s) =
     (if asciiSpace c then trimRightSpace_rev (d # s)
      else if d = CHR 0xC2 \<and> (c = CHR 0x85 \<or> c = CHR 0xA0) then trimRightSpace_rev s
      else c # d # s)"

definition TrimSpace :: "string \<Rightarrow> string" where
  "TrimSpace s = rev (trimRightSpace_rev (rev (trimLeftSpace s)))"

subsection \<open>The reader and \<^verbatim>\<open>ReadLine\<close>\<close>

text \<open>
  \<^verbatim>\<open>ReadLine\<close> (\<^verbatim>\<open>util.go\<close>) is not among the sources. What the parser sees of it is the
  pair it returns at each call: the text of a line and no error, or an error together
  with the bytes that arrived before it. The reader is therefore taken as an input: the
  list of the pairs that the successive calls return. A reader with nothing left
  returns end-of-stream and an empty line.
\<close>

datatype error =
    EOF | Timeout | ReadFailure
  | MalformedRequestLine | InvalidMethod | EmptyField | FieldContainsSpace
  | InvalidURL | InvalidProto
  | InvalidHeaderFormat | HeaderKeySpace | HeaderKeyEmpty | HeaderKeyChar | MissingHost
  | IndexOutOfRange | NilDereference | NilMap

type_synonym reader = "(string \<times> error option) list"

fun ReadLine :: "reader \<Rightarrow> (string \<times> error option) \<times> reader" where
  "ReadLine [] = (([], Some EOF), [])"
| "ReadLine (r # br) = (r, br)"

subsection \<open>Requests\<close>

text \<open>
  \<^verbatim>\<open>Request.Header\<close> is a Go map. Inside the parser the map is private to the request
  being built, so there it is a value, \<^typ>\<open>string \<rightharpoonup> string\<close>. The server shares maps
  between objects, so there the field holds a reference into a heap of maps (see
  below). The record is parametrised by what the field holds.
\<close>

type_synonym headers = "string \<rightharpoonup> string"

record 'h Request =
  Method :: string
  URL :: string
  Proto :: string
  Header :: 'h
  Host :: string
  Close :: bool

subsection \<open>\<^verbatim>\<open>ReadRequest\<close> of \<^verbatim>\<open>src/pkg/tritonhttp/request.go\<close>\<close>

text \<open>
  One round of the header loop on a line that is not blank. The state of the loop is
  the request under construction (the loop assigns \<open>Host\<close> and \<open>Close\<close>) and the local
  map \<open>header\<close>; the round returns the error of a malformed line or the new state.
\<close>

definition headerLine_pkg ::
  "string \<Rightarrow> headers Request \<Rightarrow> headers \<Rightarrow> error + headers Request \<times> headers" where
  "headerLine_pkg line req header =
     (case SplitN line CHR '':'' 2 of
        [h0, h1] \<Rightarrow>
          if HasSuffix h0 '' '' \<or> HasPrefix h0 '' '' then Inl HeaderKeySpace
          else if length (TrimSpace h0) = 0 then Inl HeaderKeyEmpty
          else Inr (req\<lparr>Host := (if h0 = ''Host'' then h1 else Host req),
                        Close := (if h0 = ''Connection'' \<and> h1 = ''close'' then True
                                  else Close req)\<rparr>,
                    header(h0 \<mapsto> h1))
      | _ \<Rightarrow> Inl InvalidHeaderFormat)"

text \<open>
  The loop: the three equations are the three results of \<open>ReadLine\<close> (nothing left, an
  error, a line). It returns the error of a failed read or of a malformed line, or the
  state at the blank line, and the reader after it.
\<close>

fun readHeaders_pkg ::
  "reader \<Rightarrow> headers Request \<Rightarrow> headers \<Rightarrow> (error + headers Request \<times> headers) \<times> reader" where
  "readHeaders_pkg [] req header = (Inl EOF, [])"
| "readHeaders_pkg ((line, Some err) # br) req header = (Inl err, br)"
| "readHeaders_pkg ((line, None) # br) req header =
     (if line = [] then (Inr (req, header), br)
      else case headerLine_pkg line req header of
        Inl err \<Rightarrow> (Inl err, br)
      | Inr (req1, header1) \<Rightarrow> readHeaders_pkg br req1 header1)"

text \<open>
  The result is the request or the error, \<open>bytesReceived\<close>, and the reader after the
  call. The named result \<open>bytesReceived\<close> is never assigned: the error returns pass the
  local \<open>bytesRec\<close>, the last return passes \<open>bytesReceived\<close> itself, which is \<open>false\<close>.
\<close>

definition ReadRequest_pkg :: "reader \<Rightarrow> (error + headers Request) \<times> bool \<times> reader" where
  "ReadRequest_pkg br =
     (case ReadLine br of
        ((line, Some err), br1) \<Rightarrow> (Inl err, length line \<noteq> 0, br1)
      | ((line, None), br1) \<Rightarrow>
          (case SplitN line CHR '' '' 3 of
             [f0, f1, f2] \<Rightarrow>
               if f0 \<noteq> ''GET'' then (Inl InvalidMethod, True, br1)
               else if length f0 = 0 \<or> length f1 = 0 \<or> length f2 = 0
                 then (Inl EmptyField, True, br1)
               else if Contains f0 '' '' \<or> Contains f1 '' '' \<or> Contains f2 '' ''
                 then (Inl FieldContainsSpace, True, br1)
               else if \<not> HasPrefix f1 ''/'' then (Inl InvalidURL, True, br1)
               else if f2 \<noteq> ''HTTP/1.1'' then (Inl InvalidProto, True, br1)
               else
                 (case readHeaders_pkg br1
                         \<lparr>Method = f0,
                          URL = (if HasSuffix f1 ''/'' then f1 @ ''index.html'' else f1),
                          Proto = f2, Header = Map.empty, Host = [], Close = False\<rparr>
                         Map.empty of
                    (Inl err, br2) \<Rightarrow> (Inl err, True, br2)
                  | (Inr (req, header), br2) \<Rightarrow>
                      (Inr (req\<lparr>Header := header(''Connection'' := None)\<rparr>), False, br2))
           | _ \<Rightarrow> (Inl MalformedRequestLine, True, br1)))"

subsection \<open>\<^verbatim>\<open>ReadRequest\<close> of \<^verbatim>\<open>src/unnamed/part_001\<close>\<close>

text \<open>
  Modelled from the spec: \<^verbatim>\<open>CanonicalHeaderKey\<close> (\<^verbatim>\<open>util.go\<close> is not among the sources).
  "Header names are canonicalized (hyphen-delimited segments, each capitalized)": the
  first letter of every hyphen-delimited segment in upper case, its other letters in
  lower case. The parser below takes the canonicalization as a parameter \<open>canon\<close>, so
  what is proved of it holds for every such function; this one is used where a concrete
  input is evaluated.
\<close>

definition toUpper :: "char \<Rightarrow> char" where
  "toUpper c =
     (case map_of (zip ''abcdefghijklmnopqrstuvwxyz'' ''ABCDEFGHIJKLMNOPQRSTUVWXYZ'') c of
        Some u \<Rightarrow> u | None \<Rightarrow> c)"

definition toLower :: "char \<Rightarrow> char" where
  "toLower c =
     (case map_of (zip ''ABCDEFGHIJKLMNOPQRSTUVWXYZ'' ''abcdefghijklmnopqrstuvwxyz'') c of
        Some l \<Rightarrow> l | None \<Rightarrow> c)"

fun canonicalFrom :: "bool \<Rightarrow> string \<Rightarrow> string" where
  "canonicalFrom upper [] = []"
| "canonicalFrom upper (c # s) =
     (if upper then toUpper c else toLower c) # canonicalFrom (c = CHR ''-'') s"

definition CanonicalHeaderKey :: "string \<Rightarrow> string" where
  "CanonicalHeaderKey s = canonicalFrom True s"

text \<open>Reading a Go map at a key it does not hold gives the empty string.\<close>

definition lookup :: "headers \<Rightarrow> string \<Rightarrow> string" where
  "lookup m k = (case m k of None \<Rightarrow> [] | Some v \<Rightarrow> v)"

text \<open>
  One round of the header loop on a line that is not blank. The state of the loop is
  the request (the loop assigns \<open>Host\<close> and stores into \<open>Header\<close>) and the flags
  \<open>checkConn\<close> and \<open>checkHost\<close>. The source ranges over the runes of the name; a byte
  outside ASCII decodes to a rune outside the accepted ranges, so the test is the same
  on the bytes.
\<close>

definition headerLine_p1 ::
  "(string \<Rightarrow> string) \<Rightarrow> string \<Rightarrow> headers Request \<Rightarrow> bool \<Rightarrow> bool
     \<Rightarrow> error + headers Request \<times> bool \<times> bool" where
  "headerLine_p1 canon line req checkConn checkHost =
     (case SplitN line CHR '':'' 2 of
        [h0, h1] \<Rightarrow>
          if HasSuffix h0 '' '' \<or> HasPrefix h0 '' '' then Inl HeaderKeySpace
          else if length (TrimSpace h0) = 0 then Inl HeaderKeyEmpty
          else if list_ex (\<lambda>c. (c < CHR ''0'' \<or> c > CHR ''9'') \<and> (c < CHR ''a'' \<or> c > CHR ''z'')
                            \<and> (c < CHR ''A'' \<or> c > CHR ''Z'') \<and> c \<noteq> CHR ''-'') h0
            then Inl HeaderKeyChar
          else Inr (req\<lparr>Host := (if canon h0 = ''Host'' then TrimLeft h1 '' '' else Host req),
                        Header := (Header req)(canon h0 \<mapsto> TrimLeft h1 '' '')\<rparr>,
                    (if canon h0 = ''Connection'' then True else checkConn),
                    (if canon h0 = ''Host'' then True else checkHost))
      | _ \<Rightarrow> Inl InvalidHeaderFormat)"

fun readHeaders_p1 ::
  "(string \<Rightarrow> string) \<Rightarrow> reader \<Rightarrow> headers Request \<Rightarrow> bool \<Rightarrow> bool
     \<Rightarrow> (error + headers Request \<times> bool \<times> bool) \<times> reader" where
  "readHeaders_p1 canon [] req checkConn checkHost = (Inl EOF, [])"
| "readHeaders_p1 canon ((line, Some err) # br) req checkConn checkHost = (Inl err, br)"
| "readHeaders_p1 canon ((line, None) # br) req checkConn checkHost =
     (if line = [] then (Inr (req, checkConn, checkHost), br)
      else case headerLine_p1 canon line req checkConn checkHost of
        Inl err \<Rightarrow> (Inl err, br)
      | Inr (req1, checkConn1, checkHost1) \<Rightarrow> readHeaders_p1 canon br req1 checkConn1 checkHost1)"

text \<open>What the source does with the special headers once the blank line is reached.\<close>

definition specialHeaders_p1 :: "headers Request \<Rightarrow> bool \<Rightarrow> bool \<Rightarrow> error + headers Request" where
  "specialHeaders_p1 req checkConn checkHost =
     (let req1 = (if checkConn
                  then req\<lparr>Close := (lookup (Header req) ''Connection'' = ''close''),
                           Header := (Header req)(''Connection'' := None)\<rparr>
                  else req)
      in if checkHost then Inr (req1\<lparr>Header := (Header req1)(''Host'' := None)\<rparr>)
         else Inl MissingHost)"

definition ReadRequest_p1 ::
  "(string \<Rightarrow> string) \<Rightarrow> reader \<Rightarrow> (error + headers Request) \<times> bool \<times> reader" where
  "ReadRequest_p1 canon br =
     (case ReadLine br of
        ((line, Some err), br1) \<Rightarrow> (Inl err, length line \<noteq> 0, br1)
      | ((line, None), br1) \<Rightarrow>
          (case SplitN line CHR '' '' 3 of
             [f0, f1, f2] \<Rightarrow>
               if f0 \<noteq> ''GET'' then (Inl InvalidMethod, True, br1)
               else if length f0 = 0 \<or> length f1 = 0 \<or> length f2 = 0
                 then (Inl EmptyField, True, br1)
               else if Contains f0 '' '' \<or> Contains f1 '' '' \<or> Contains f2 '' ''
                 then (Inl FieldContainsSpace, True, br1)
               else if \<not> HasPrefix f1 ''/'' then (Inl InvalidURL, True, br1)
               else if f2 \<noteq> ''HTTP/1.1'' then (Inl InvalidProto, True, br1)
               else
                 (case readHeaders_p1 canon br1
                         \<lparr>Method = f0, URL = f1, Proto = f2, Header = Map.empty,
                          Host = [], Close = False\<rparr> False False of
                    (Inl err, br2) \<Rightarrow> (Inl err, True, br2)
                  | (Inr (req, checkConn, checkHost), br2) \<Rightarrow>
                      (specialHeaders_p1 req checkConn checkHost, True, br2))
           | _ \<Rightarrow> (Inl MalformedRequestLine, True, br1)))"

subsection \<open>Go's \<^verbatim>\<open>path/filepath\<close> and \<^verbatim>\<open>strconv\<close>\<close>

text \<open>
  \<open>Clean\<close> on slash-separated paths, as the library documents it: repeated separators
  collapse, every \<^verbatim>\<open>.\<close> element is dropped, an inner \<^verbatim>\<open>..\<close> removes the element before it,
  a \<^verbatim>\<open>..\<close> at the start of a rooted path is dropped, and the empty result is \<^verbatim>\<open>.\<close>.
  \<open>Join\<close> of two elements skips a leading empty element, joins the rest with a slash
  and cleans the result.
\<close>

fun Split :: "string \<Rightarrow> char \<Rightarrow> string list" where
  "Split [] sep = [[]]"
| "Split (c # s) sep =
     (if c = sep then [] # Split s sep
      else case Split s sep of x # xs \<Rightarrow> (c # x) # xs | [] \<Rightarrow> [[c]])"

fun cleanStep :: "bool \<Rightarrow> string list \<Rightarrow> string \<Rightarrow> string list" where
  "cleanStep rooted out elem =
     (if elem = [] \<or> elem = ''.'' then out
      else if elem = ''..''
        then (if out \<noteq> [] \<and> last out \<noteq> ''..'' then butlast out
              else if rooted then out else out @ [elem])
      else out @ [elem])"

fun joinSlash :: "string list \<Rightarrow> string" where
  "joinSlash [] = []"
| "joinSlash [x] = x"
| "joinSlash (x # y # xs) = x @ ''/'' @ joinSlash (y # xs)"

definition Clean :: "string \<Rightarrow> string" where
  "Clean path =
     (if path = [] then ''.''
      else if hd path = CHR ''/''
        then ''/'' @ joinSlash (foldl (cleanStep True) [] (Split path CHR ''/''))
      else if foldl (cleanStep False) [] (Split path CHR ''/'') = [] then ''.''
      else joinSlash (foldl (cleanStep False) [] (Split path CHR ''/'')))"

definition Join :: "string \<Rightarrow> string \<Rightarrow> string" where
  "Join a b =
     (if a \<noteq> [] then Clean (a @ ''/'' @ b)
      else if b \<noteq> [] then Clean b
      else [])"

fun digits :: "nat \<Rightarrow> string" where
  "digits n =
     (if n < 10 then [''0123456789'' ! n]
      else digits (n div 10) @ [''0123456789'' ! (n mod 10)])"

declare digits.simps [simp del]

definition Itoa :: "int \<Rightarrow> string" where
  "Itoa i = (if i < 0 then CHR ''-'' # digits (nat (- i)) else digits (nat i))"

subsection \<open>The file system, the clock and the collaborators\<close>

text \<open>
  \<^verbatim>\<open>os.Stat\<close> returns the file's information, the error that \<^verbatim>\<open>os.IsNotExist\<close> accepts,
  or another error (a path through a regular file, a directory that may not be
  searched). \<^verbatim>\<open>FormatTime\<close> and \<^verbatim>\<open>MIMETypeByExtension\<close> (\<^verbatim>\<open>util.go\<close>) are not among the
  sources and are taken as parameters, with the file system and the clock.
\<close>

record FileInfo =
  IsDir :: bool
  Size :: int
  ModTime :: nat

datatype stat_result = StatOK FileInfo | ErrNotExist | ErrOther

record World =
  Stat :: "string \<Rightarrow> stat_result"
  Now :: nat
  FormatTime :: "nat \<Rightarrow> string"
  MIMETypeByExtension :: "string \<Rightarrow> string"

subsection \<open>Maps as references\<close>

text \<open>
  A Go map is a reference: \<^verbatim>\<open>res.Header = req.Header\<close> makes both fields name one map.
  The heap is the list of the maps made so far; a reference is \<open>Some\<close> index into it, or
  \<open>None\<close> for the nil map. \<open>make_map\<close> is \<^verbatim>\<open>make(map[string]string)\<close>, \<open>mapassign\<close> is
  \<^verbatim>\<open>m[k] = v\<close> for a map that is not nil.
\<close>

type_synonym ref = "nat option"
type_synonym heap = "headers list"

definition make_map :: "heap \<Rightarrow> nat \<times> heap" where
  "make_map h = (length h, h @ [Map.empty])"

definition mapassign :: "heap \<Rightarrow> nat \<Rightarrow> string \<Rightarrow> string \<Rightarrow> heap" where
  "mapassign h a k v = h[a := (h ! a)(k \<mapsto> v)]"

definition deref :: "heap \<Rightarrow> ref \<Rightarrow> headers" where
  "deref h r = (case r of None \<Rightarrow> Map.empty | Some a \<Rightarrow> h ! a)"

subsection \<open>Responses\<close>

record Response =
  StatusCode :: int
  Proto :: string
  Header :: ref
  Request :: "ref Request option"
  FilePath :: string

record Server =
  Addr :: string
  DocRoot :: string

text \<open>\<^verbatim>\<open>&Response{}\<close>: every field at its zero value.\<close>

definition newResponse :: Response where
  "newResponse = \<lparr>StatusCode = 0, Proto = [], Header = None, Request = None, FilePath = []\<rparr>"

text \<open>
  \<^verbatim>\<open>HandleOK\<close>. The two revisions differ only in filling the map through a local name or
  through \<^verbatim>\<open>res.Header\<close>. \<^verbatim>\<open>file.ModTime()\<close> on the nil \<^verbatim>\<open>file\<close> of a failed \<^verbatim>\<open>os.Stat\<close>
  panics, and so does the index \<^verbatim>\<open>[1]\<close> when \<^verbatim>\<open>SplitN\<close> returned one piece.
\<close>

definition HandleOK ::
  "World \<Rightarrow> Response \<Rightarrow> ref Request \<Rightarrow> string \<Rightarrow> heap \<Rightarrow> error + Response \<times> heap" where
  "HandleOK w res req path h =
     (case Stat w path of
        StatOK file \<Rightarrow>
          (case SplitN path CHR ''.'' 2 of
             [p0, p1] \<Rightarrow>
               (case make_map h of
                  (a, h0) \<Rightarrow>
                    (let h1 = mapassign h0 a ''Date'' (FormatTime w (Now w));
                         h2 = mapassign h1 a ''Last-Modified'' (FormatTime w (ModTime file));
                         h3 = mapassign h2 a ''Content-Type'' (MIMETypeByExtension w (''.'' @ p1));
                         h4 = mapassign h3 a ''Content-Length'' (Itoa (Size file));
                         h5 = (if Close req then mapassign h4 a ''Connection'' ''close'' else h4)
                     in Inr (res\<lparr>Proto := Request.Proto req, StatusCode := 200,
                                 Header := Some a, FilePath := path, Request := Some req\<rparr>, h5)))
           | _ \<Rightarrow> Inl IndexOutOfRange)
      | _ \<Rightarrow> Inl NilDereference)"

text \<open>\<^verbatim>\<open>HandleBadRequest\<close>, the same text in both revisions.\<close>

definition HandleBadRequest :: "World \<Rightarrow> Response \<Rightarrow> heap \<Rightarrow> Response \<times> heap" where
  "HandleBadRequest w res h =
     (case make_map h of
        (a, h0) \<Rightarrow>
          (res\<lparr>Proto := ''HTTP/1.1'', StatusCode := 400, FilePath := [],
               Header := Some a, Request := None\<rparr>,
           mapassign (mapassign h0 a ''Date'' (FormatTime w (Now w))) a ''Connection'' ''close''))"

text \<open>\<^verbatim>\<open>HandleNotFound\<close> of \<^verbatim>\<open>src/pkg/tritonhttp/response.go\<close>: a map of its own.\<close>

definition HandleNotFound_pkg ::
  "World \<Rightarrow> Response \<Rightarrow> ref Request \<Rightarrow> heap \<Rightarrow> Response \<times> heap" where
  "HandleNotFound_pkg w res req h =
     (case make_map h of
        (a, h0) \<Rightarrow>
          (res\<lparr>StatusCode := 404, FilePath := [], Proto := ''HTTP/1.1'', Request := None,
               Header := Some a\<rparr>,
           mapassign (mapassign h0 a ''Date'' (FormatTime w (Now w))) a ''Connection'' ''close''))"

text \<open>
  \<^verbatim>\<open>HandleNotFound\<close> of \<^verbatim>\<open>src/unnamed/part_000\<close>: \<^verbatim>\<open>res.Header = req.Header\<close>, then the
  assignments go to the request's map. Assigning into the nil map panics.
\<close>

definition HandleNotFound_p0 ::
  "World \<Rightarrow> Response \<Rightarrow> ref Request \<Rightarrow> heap \<Rightarrow> error + Response \<times> heap" where
  "HandleNotFound_p0 w res req h =
     (case Request.Header req of
        None \<Rightarrow> Inl NilMap
      | Some a \<Rightarrow>
          (let h1 = mapassign h a ''Date'' (FormatTime w (Now w));
               h2 = (if Close req then mapassign h1 a ''Connection'' ''close'' else h1)
           in Inr (res\<lparr>StatusCode := 404, FilePath := [], Proto := ''HTTP/1.1'',
                       Request := None, Header := Request.Header req\<rparr>, h2)))"

text \<open>
  \<^verbatim>\<open>HandleGoodRequest\<close> of \<^verbatim>\<open>src/pkg/tritonhttp/response.go\<close>. After the prefix test the
  function goes on to \<^verbatim>\<open>os.Stat\<close> whatever the test said. \<^verbatim>\<open>fi.IsDir()\<close> on the nil \<^verbatim>\<open>fi\<close>
  of an error that is not "does not exist" panics.
\<close>

definition HandleGoodRequest_pkg ::
  "Server \<Rightarrow> World \<Rightarrow> ref Request \<Rightarrow> heap \<Rightarrow> error + Response \<times> heap" where
  "HandleGoodRequest_pkg s w req h =
     (case (if \<not> HasPrefix (Clean (Join (DocRoot s) (URL req))) (DocRoot s)
            then HandleNotFound_pkg w newResponse req h
            else (newResponse, h)) of
        (res, h1) \<Rightarrow>
          (case Stat w (Clean (Join (DocRoot s) (URL req))) of
             ErrNotExist \<Rightarrow> Inr (HandleNotFound_pkg w res req h1)
           | ErrOther \<Rightarrow> Inl NilDereference
           | StatOK fi \<Rightarrow>
               if IsDir fi then Inr (HandleNotFound_pkg w res req h1)
               else HandleOK w res req (Clean (Join (DocRoot s) (URL req))) h1))"

text \<open>
  \<^verbatim>\<open>HandleGoodRequest\<close> of \<^verbatim>\<open>src/unnamed/part_000\<close>. It assigns \<^verbatim>\<open>req.URL\<close>, so the request
  as it is after the call is part of the result.
\<close>

definition expandIndex_p0 :: "ref Request \<Rightarrow> ref Request" where
  "expandIndex_p0 req =
     (if HasSuffix (URL req) ''/'' then req\<lparr>URL := URL req @ ''index.html''\<rparr> else req)"

definition HandleGoodRequest_p0 ::
  "Server \<Rightarrow> World \<Rightarrow> ref Request \<Rightarrow> heap \<Rightarrow> error + Response \<times> ref Request \<times> heap" where
  "HandleGoodRequest_p0 s w req0 h =
     (case expandIndex_p0 req0 of
        req \<Rightarrow>
          if URL req = [] then map_sum id (\<lambda>(res, h1). (res, req, h1)) (HandleNotFound_p0 w newResponse req h)
          else if HasPrefix (Clean (DocRoot s @ URL req)) (DocRoot s) = False
            then map_sum id (\<lambda>(res, h1). (res, req, h1)) (HandleNotFound_p0 w newResponse req h)
          else
            (case Stat w (Clean (DocRoot s @ URL req)) of
               ErrNotExist \<Rightarrow>
                 map_sum id (\<lambda>(res, h1). (res, req, h1)) (HandleNotFound_p0 w newResponse req h)
             | ErrOther \<Rightarrow> Inl NilDereference
             | StatOK fi \<Rightarrow>
                 if IsDir fi
                 then map_sum id (\<lambda>(res, h1). (res, req, h1)) (HandleNotFound_p0 w newResponse req h)
                 else map_sum id (\<lambda>(res, h1). (res, req, h1))
                        (HandleOK w newResponse req (Clean (DocRoot s @ URL req)) h)))"

subsection \<open>Connections\<close>

text \<open>
  What \<^verbatim>\<open>HandleConnection\<close> uses of a connection: the reader on it, the results of the
  successive calls of \<^verbatim>\<open>SetReadDeadline\<close> (\<open>True\<close> for a call that returns an error; none
  left means success), what has been written to it, and whether it has been closed.
  \<^verbatim>\<open>Response.Write\<close> sends the status line, the headers and the file of a response;
  \<^verbatim>\<open>HandleConnection\<close> does not act on its result, and the connection records the
  response handed to \<^verbatim>\<open>Write\<close> with the contents of its header map at that moment.
\<close>

record Conn =
  Reader :: reader
  Deadline :: "bool list"
  Written :: "(Response \<times> headers) list"
  Closed :: bool

definition SetReadDeadline :: "Conn \<Rightarrow> bool \<times> Conn" where
  "SetReadDeadline conn =
     (case Deadline conn of [] \<Rightarrow> (False, conn) | e # es \<Rightarrow> (e, conn\<lparr>Deadline := es\<rparr>))"

definition Write :: "Response \<Rightarrow> heap \<Rightarrow> Conn \<Rightarrow> Conn" where
  "Write res h conn =
     conn\<lparr>Written := Written conn @ [(res, deref h (Response.Header res))]\<rparr>"

text \<open>The request that the parser returns, with its map placed in the heap.\<close>

definition newRequest :: "headers Request \<Rightarrow> heap \<Rightarrow> ref Request \<times> heap" where
  "newRequest req h =
     (\<lparr>Method = Method req, URL = URL req, Request.Proto = Request.Proto req,
       Request.Header = Some (length h), Host = Host req, Close = Close req\<rparr>,
      h @ [Request.Header req])"

text \<open>A successful parse has taken at least the request line from the reader.\<close>

lemma readHeaders_pkg_length:
  "readHeaders_pkg br req header = (r, br') \<Longrightarrow> length br' \<le> length br"
proof (induction br req header arbitrary: r br' rule: readHeaders_pkg.induct)
  case (1 req header)
  then show ?case by simp
next
  case (2 line err br req header)
  then show ?case by simp
next
  case (3 line br req header)
  show ?case
  proof (cases "line = []")
    case True
    with "3.prems" show ?thesis by simp
  next
    case False
    show ?thesis
    proof (cases "headerLine_pkg line req header")
      case (Inl e)
      with "3.prems" False show ?thesis by simp
    next
      case (Inr p)
      obtain req1 header1 where p: "p = (req1, header1)" by (cases p)
      from "3.prems" False Inr p have "readHeaders_pkg br req1 header1 = (r, br')" by simp
      from "3.IH"[OF False Inr[unfolded p] refl this]
      show ?thesis by simp
    qed
  qed
qed

lemma ReadRequest_pkg_shorter:
  assumes "ReadRequest_pkg br = (Inr req, b, br')"
  shows "length br' < length br"
proof (cases br)
  case Nil
  with assms show ?thesis by (simp add: ReadRequest_pkg_def)
next
  case (Cons r br1)
  obtain line e where r: "r = (line, e)" by (cases r)
  show ?thesis
  proof (cases e)
    case (Some err)
    with assms Cons r show ?thesis by (simp add: ReadRequest_pkg_def)
  next
    case None
    from assms Cons r None obtain rq hd0 q where
      "readHeaders_pkg br1 rq hd0 = (q, br')"
      by (auto simp: ReadRequest_pkg_def simp del: SplitN.simps
               split: list.splits if_splits prod.splits sum.splits)
    from readHeaders_pkg_length[OF this] Cons show ?thesis by simp
  qed
qed

lemma readHeaders_p1_length:
  "readHeaders_p1 canon br req cc ch = (r, br') \<Longrightarrow> length br' \<le> length br"
proof (induction canon br req cc ch arbitrary: r br' rule: readHeaders_p1.induct)
  case (1 canon req cc ch)
  then show ?case by simp
next
  case (2 canon line err br req cc ch)
  then show ?case by simp
next
  case (3 canon line br req cc ch)
  show ?case
  proof (cases "line = []")
    case True
    with "3.prems" show ?thesis by simp
  next
    case False
    show ?thesis
    proof (cases "headerLine_p1 canon line req cc ch")
      case (Inl e)
      with "3.prems" False show ?thesis by simp
    next
      case (Inr p)
      obtain req1 cc1 ch1 where p: "p = (req1, cc1, ch1)" by (cases p)
      from "3.prems" False Inr p have "readHeaders_p1 canon br req1 cc1 ch1 = (r, br')"
        by simp
      from "3.IH"[OF False Inr[unfolded p] refl refl this]
      show ?thesis by simp
    qed
  qed
qed

lemma ReadRequest_p1_shorter:
  assumes "ReadRequest_p1 canon br = (Inr req, b, br')"
  shows "length br' < length br"
proof (cases br)
  case Nil
  with assms show ?thesis by (simp add: ReadRequest_p1_def)
next
  case (Cons r br1)
  obtain line e where r: "r = (line, e)" by (cases r)
  show ?thesis
  proof (cases e)
    case (Some err)
    with assms Cons r show ?thesis by (simp add: ReadRequest_p1_def)
  next
    case None
    from assms Cons r None obtain rq cc ch q where
      "readHeaders_p1 canon br1 rq cc ch = (q, br')"
      by (auto simp: ReadRequest_p1_def simp del: SplitN.simps
               split: list.splits if_splits prod.splits sum.splits)
    from readHeaders_p1_length[OF this] Cons show ?thesis by simp
  qed
qed

lemma Reader_SetReadDeadline:
  "SetReadDeadline conn = (e, conn0) \<Longrightarrow> Reader conn0 = Reader conn"
  by (auto simp: SetReadDeadline_def split: list.splits)

lemma Reader_Write: "Reader (Write res h conn) = Reader conn"
  by (simp add: Write_def)

text \<open>
  \<^verbatim>\<open>HandleConnection\<close> of \<^verbatim>\<open>src/pkg/tritonhttp/response.go\<close>, with the parser of the same
  revision. The result is the connection when the function returns, or the panic that
  ends it. In the branch of a timeout after some bytes the response is built and the
  connection is closed; \<^verbatim>\<open>Write\<close> is not called there.
\<close>

function HandleConnection_pkg :: "Server \<Rightarrow> World \<Rightarrow> heap \<Rightarrow> Conn \<Rightarrow> error + Conn" where
  "HandleConnection_pkg s w h conn =
     (case SetReadDeadline conn of
        (True, conn0) \<Rightarrow> Inr (conn0\<lparr>Closed := True\<rparr>)
      | (False, conn0) \<Rightarrow>
          (case ReadRequest_pkg (Reader conn0) of
             (Inl err, bytesReceived, br) \<Rightarrow>
               if err = EOF then Inr (conn0\<lparr>Reader := br, Closed := True\<rparr>)
               else if err = Timeout \<and> \<not> bytesReceived
                 then Inr (conn0\<lparr>Reader := br, Closed := True\<rparr>)
               else if err = Timeout \<and> bytesReceived
                 then (case HandleBadRequest w newResponse h of
                         (res, h1) \<Rightarrow> Inr (conn0\<lparr>Reader := br, Closed := True\<rparr>))
               else (case HandleBadRequest w newResponse h of
                       (res, h1) \<Rightarrow>
                         Inr ((Write res h1 (conn0\<lparr>Reader := br\<rparr>))\<lparr>Closed := True\<rparr>))
           | (Inr req0, bytesReceived, br) \<Rightarrow>
               (case newRequest req0 h of
                  (req, h0) \<Rightarrow>
                    (case HandleGoodRequest_pkg s w req h0 of
                       Inl e \<Rightarrow> Inl e
                     | Inr (res, h1) \<Rightarrow>
                         if Close req \<or> StatusCode res \<noteq> 200
                         then Inr ((Write res h1 (conn0\<lparr>Reader := br\<rparr>))\<lparr>Closed := True\<rparr>)
                         else HandleConnection_pkg s w h1
                                (Write res h1 (conn0\<lparr>Reader := br\<rparr>))))))"
  by pat_completeness auto
termination
proof (relation "measure (\<lambda>(s, w, h, conn). length (Reader conn))", goal_cases)
  case 1
  show ?case by simp
next
  case (2 s w h conn e conn0 r rest req0 bytesReceived br req h0 ok res h1)
  from 2(1) have "Reader conn0 = Reader conn"
    by (metis Reader_SetReadDeadline)
  moreover from 2(3-5) have "ReadRequest_pkg (Reader conn0) = (Inr req0, bytesReceived, br)"
    by simp
  ultimately have "length br < length (Reader conn)"
    using ReadRequest_pkg_shorter by metis
  then show ?case by (simp add: Reader_Write)
qed

text \<open>
  \<^verbatim>\<open>HandleConnection\<close> of \<^verbatim>\<open>src/unnamed/part_000\<close>, with the parser of the same revision
  (\<^verbatim>\<open>src/unnamed/part_001\<close>). Here the branch of a timeout after some bytes writes the
  response before it closes.
\<close>

function HandleConnection_p0 ::
  "(string \<Rightarrow> string) \<Rightarrow> Server \<Rightarrow> World \<Rightarrow> heap \<Rightarrow> Conn \<Rightarrow> error + Conn" where
  "HandleConnection_p0 canon s w h conn =
     (case SetReadDeadline conn of
        (True, conn0) \<Rightarrow> Inr (conn0\<lparr>Closed := True\<rparr>)
      | (False, conn0) \<Rightarrow>
          (case ReadRequest_p1 canon (Reader conn0) of
             (Inl err, bytesReceived, br) \<Rightarrow>
               if err = EOF then Inr (conn0\<lparr>Reader := br, Closed := True\<rparr>)
               else if err = Timeout \<and> \<not> bytesReceived
                 then Inr (conn0\<lparr>Reader := br, Closed := True\<rparr>)
               else if err = Timeout \<and> bytesReceived
                 then (case HandleBadRequest w newResponse h of
                         (res, h1) \<Rightarrow>
                           Inr ((Write res h1 (conn0\<lparr>Reader := br\<rparr>))\<lparr>Closed := True\<rparr>))
               else (case HandleBadRequest w newResponse h of
                       (res, h1) \<Rightarrow>
                         Inr ((Write res h1 (conn0\<lparr>Reader := br\<rparr>))\<lparr>Closed := True\<rparr>))
           | (Inr req0, bytesReceived, br) \<Rightarrow>
               (case newRequest req0 h of
                  (req, h0) \<Rightarrow>
                    (case HandleGoodRequest_p0 s w req h0 of
                       Inl e \<Rightarrow> Inl e
                     | Inr (res, req1, h1) \<Rightarrow>
                         if Close req1 \<or> StatusCode res \<noteq> 200
                         then Inr ((Write res h1 (conn0\<lparr>Reader := br\<rparr>))\<lparr>Closed := True\<rparr>)
                         else HandleConnection_p0 canon s w h1
                                (Write res h1 (conn0\<lparr>Reader := br\<rparr>))))))"
  by pat_completeness auto
termination
proof (relation "measure (\<lambda>(canon, s, w, h, conn). length (Reader conn))", goal_cases)
  case 1
  show ?case by simp
next
  case (2 canon s w h conn e conn0 r rest req0 bytesReceived br req h0 ok res p req1 h1)
  from 2(1) have "Reader conn0 = Reader conn"
    by (metis Reader_SetReadDeadline)
  moreover from 2(3-5)
  have "ReadRequest_p1 canon (Reader conn0) = (Inr req0, bytesReceived, br)"
    by simp
  ultimately have "length br < length (Reader conn)"
    using ReadRequest_p1_shorter by metis
  then show ?case by (simp add: Reader_Write)
qed

section \<open>Reference definitions and examples\<close>

subsection \<open>The header block, read by the spec's words\<close>

text \<open>
  The spec's words for the headers: the block ends at the first blank line; a header
  line is split at its first colon; names are compared in canonical form; the value is
  the text after the colon without its leading spaces; of two lines with the same name
  the later one wins. \<open>headerBlock\<close> is the list of the lines before the first blank line
  (or the read failure), \<open>headerValue\<close> the value that these words give a name.
\<close>

fun headerBlock :: "reader \<Rightarrow> string list" where
  "headerBlock [] = []"
| "headerBlock ((line, Some err) # br) = []"
| "headerBlock ((line, None) # br) = (if line = [] then [] else line # headerBlock br)"

fun headerValue :: "(string \<Rightarrow> string) \<Rightarrow> string \<Rightarrow> string list \<Rightarrow> string option" where
  "headerValue canon key [] = None"
| "headerValue canon key (l # ls) =
     (case headerValue canon key ls of
        Some v \<Rightarrow> Some v
      | None \<Rightarrow>
          if canon (takeWhile (\<lambda>c. c \<noteq> CHR '':'') l) = key
          then Some (TrimLeft (tl (dropWhile (\<lambda>c. c \<noteq> CHR '':'') l)) '' '')
          else None)"

subsection \<open>Lines read and bytes received\<close>

text \<open>
  The claim C8 speaks of a line that was read successfully: a call of \<open>ReadLine\<close> that
  returned no error. The calls of one parse follow each other, so one of them
  succeeded exactly when the first one did.
\<close>

definition lineSuccessfullyRead :: "reader \<Rightarrow> bool" where
  "lineSuccessfullyRead br = (case ReadLine br of ((line, err), br1) \<Rightarrow> err = None)"

text \<open>
  What the source tests instead: the first call returned a line, or it returned an
  error together with some bytes (\<^verbatim>\<open>len(line) != 0\<close>).
\<close>

definition bytesArrived :: "reader \<Rightarrow> bool" where
  "bytesArrived br =
     (case ReadLine br of ((line, err), br1) \<Rightarrow> err = None \<or> line \<noteq> [])"

subsection \<open>Examples\<close>

text \<open>
  A world for the examples: the listed files exist, nothing else does; the clock and
  the two collaborators are constant. And a request as the connection handler passes
  it, with its header map at address 0 of the heap.
\<close>

definition exampleWorld :: "(string \<times> FileInfo) list \<Rightarrow> World" where
  "exampleWorld files =
     \<lparr>Stat = (\<lambda>p. case map_of files p of Some fi \<Rightarrow> StatOK fi | None \<Rightarrow> ErrNotExist),
      Now = 0, FormatTime = (\<lambda>t. ''Thu, 01 Jan 1970 00:00:00 GMT''),
      MIMETypeByExtension = (\<lambda>ext. ''application/octet-stream'')\<rparr>"

definition exampleRequest :: "string \<Rightarrow> bool \<Rightarrow> ref Request" where
  "exampleRequest url close =
     \<lparr>Method = ''GET'', URL = url, Request.Proto = ''HTTP/1.1'', Request.Header = Some 0,
      Host = ''test'', Close = close\<rparr>"

definition exampleServer :: Server where
  "exampleServer = \<lparr>Addr = '':8080'', DocRoot = ''/srv/www''\<rparr>"

section \<open>What the parser returns\<close>

lemmas strings_eval =
  numeral_3_eq_3 numeral_2_eq_2 HasPrefix_def HasSuffix_def Contains_def suffix_to_prefix
  sublist_Cons_right TrimSpace_def asciiSpace_def TrimLeft_def

lemmas parser_eval =
  ReadRequest_pkg_def headerLine_pkg_def ReadRequest_p1_def headerLine_p1_def
  specialHeaders_p1_def lookup_def CanonicalHeaderKey_def toUpper_def toLower_def

subsection \<open>The header loops and \<open>ReadLine\<close>\<close>

text \<open>
  The loops are defined by the three shapes of the reader. Said with \<open>ReadLine\<close>, as the
  sources say it: each round calls \<open>ReadLine\<close>, returns its error, stops at the blank line
  or handles the line and goes on with the rest.
\<close>

lemma readHeaders_pkg_ReadLine:
  "readHeaders_pkg br req header =
     (case ReadLine br of
        ((line, Some err), br1) \<Rightarrow> (Inl err, br1)
      | ((line, None), br1) \<Rightarrow>
          if line = [] then (Inr (req, header), br1)
          else case headerLine_pkg line req header of
            Inl err \<Rightarrow> (Inl err, br1)
          | Inr (req1, header1) \<Rightarrow> readHeaders_pkg br1 req1 header1)"
  by (cases "(br, req, header)" rule: readHeaders_pkg.cases) simp_all

lemma readHeaders_p1_ReadLine:
  "readHeaders_p1 canon br req checkConn checkHost =
     (case ReadLine br of
        ((line, Some err), br1) \<Rightarrow> (Inl err, br1)
      | ((line, None), br1) \<Rightarrow>
          if line = [] then (Inr (req, checkConn, checkHost), br1)
          else case headerLine_p1 canon line req checkConn checkHost of
            Inl err \<Rightarrow> (Inl err, br1)
          | Inr (req1, checkConn1, checkHost1) \<Rightarrow>
              readHeaders_p1 canon br1 req1 checkConn1 checkHost1)"
  by (cases "(canon, br, req, checkConn, checkHost)" rule: readHeaders_p1.cases) simp_all

subsection \<open>The parser of \<^verbatim>\<open>src/unnamed/part_001\<close> against the reference\<close>

lemma SplitN_2:
  "SplitN line sep 2 = [h0, h1] \<Longrightarrow>
     h0 = takeWhile (\<lambda>c. c \<noteq> sep) line \<and> h1 = tl (dropWhile (\<lambda>c. c \<noteq> sep) line)"
  by (simp add: numeral_2_eq_2 split: if_splits)

lemma headerLine_p1_Inr:
  assumes "headerLine_p1 canon line req cc ch = Inr (req1, cc1, ch1)"
  shows "\<exists>h0 h1. h0 = takeWhile (\<lambda>c. c \<noteq> CHR '':'') line
           \<and> h1 = tl (dropWhile (\<lambda>c. c \<noteq> CHR '':'') line)
           \<and> req1 = req\<lparr>Host := (if canon h0 = ''Host'' then TrimLeft h1 '' '' else Host req),
                        Request.Header := (Request.Header req)(canon h0 \<mapsto> TrimLeft h1 '' '')\<rparr>
           \<and> cc1 = (cc \<or> canon h0 = ''Connection'')
           \<and> ch1 = (ch \<or> canon h0 = ''Host'')"
proof -
  from assms obtain h0 h1 where sp: "SplitN line CHR '':'' 2 = [h0, h1]"
    by (auto simp: headerLine_p1_def simp del: SplitN.simps split: list.splits)
  from assms sp have
    "req1 = req\<lparr>Host := (if canon h0 = ''Host'' then TrimLeft h1 '' '' else Host req),
                Request.Header := (Request.Header req)(canon h0 \<mapsto> TrimLeft h1 '' '')\<rparr>"
    "cc1 = (cc \<or> canon h0 = ''Connection'')" "ch1 = (ch \<or> canon h0 = ''Host'')"
    by (auto simp: headerLine_p1_def simp del: SplitN.simps split: if_splits)
  with SplitN_2[OF sp] show ?thesis by blast
qed

text \<open>
  The loop, started in any state: at the blank line the map, the host and the two flags
  are what the reference gives for the lines read, on top of the state at the start.
\<close>

lemma readHeaders_p1_reference:
  assumes "readHeaders_p1 canon br req cc ch = (Inr (req', cc', ch'), br')"
  shows "Request.Header req' k =
           (case headerValue canon k (headerBlock br) of
              None \<Rightarrow> Request.Header req k | Some v \<Rightarrow> Some v)
       \<and> Host req' =
           (case headerValue canon ''Host'' (headerBlock br) of
              None \<Rightarrow> Host req | Some v \<Rightarrow> v)
       \<and> cc' = (cc \<or> headerValue canon ''Connection'' (headerBlock br) \<noteq> None)
       \<and> ch' = (ch \<or> headerValue canon ''Host'' (headerBlock br) \<noteq> None)
       \<and> URL req' = URL req \<and> Method req' = Method req
       \<and> Request.Proto req' = Request.Proto req \<and> Close req' = Close req"
  using assms
proof (induction canon br req cc ch rule: readHeaders_p1.induct)
  case (1 canon req cc ch)
  then show ?case by simp
next
  case (2 canon line err br req cc ch)
  then show ?case by simp
next
  case (3 canon line br req cc ch)
  show ?case
  proof (cases "line = []")
    case True
    with "3.prems" show ?thesis by simp
  next
    case False
    show ?thesis
    proof (cases "headerLine_p1 canon line req cc ch")
      case (Inl e)
      with "3.prems" False show ?thesis by simp
    next
      case (Inr p)
      obtain req1 cc1 ch1 where p: "p = (req1, cc1, ch1)" by (cases p)
      from "3.prems" False Inr p
      have rec: "readHeaders_p1 canon br req1 cc1 ch1 = (Inr (req', cc', ch'), br')"
        by simp
      note IH = "3.IH"[OF False Inr[unfolded p] refl refl rec]
      from headerLine_p1_Inr[OF Inr[unfolded p]]
      have l: "req1 = req\<lparr>Host := (if canon (takeWhile (\<lambda>c. c \<noteq> CHR '':'') line) = ''Host''
                                 then TrimLeft (tl (dropWhile (\<lambda>c. c \<noteq> CHR '':'') line)) '' ''
                                 else Host req),
                        Request.Header := (Request.Header req)
                          (canon (takeWhile (\<lambda>c. c \<noteq> CHR '':'') line)
                             \<mapsto> TrimLeft (tl (dropWhile (\<lambda>c. c \<noteq> CHR '':'') line)) '' '')\<rparr>"
        "cc1 = (cc \<or> canon (takeWhile (\<lambda>c. c \<noteq> CHR '':'') line) = ''Connection'')"
        "ch1 = (ch \<or> canon (takeWhile (\<lambda>c. c \<noteq> CHR '':'') line) = ''Host'')"
        by auto
      from IH l False show ?thesis
        by (auto split: option.splits)
    qed
  qed
qed

lemma specialHeaders_p1_Inr:
  assumes "specialHeaders_p1 rq cc ch = Inr req"
  shows "ch \<and> Host req = Host rq \<and> URL req = URL rq \<and> Method req = Method rq
       \<and> Request.Proto req = Request.Proto rq
       \<and> Close req = (if cc then lookup (Request.Header rq) ''Connection'' = ''close''
                       else Close rq)
       \<and> Request.Header req =
           (if cc then (Request.Header rq)(''Connection'' := None, ''Host'' := None)
            else (Request.Header rq)(''Host'' := None))"
  using assms by (auto simp: specialHeaders_p1_def Let_def split: if_splits)

text \<open>
  Every request that this parser returns: the target is the second field of the request
  line as it was sent; a \<^verbatim>\<open>Host\<close> header was read and its value is the host; the close
  flag is true exactly when the \<^verbatim>\<open>Connection\<close> header was read and its value is \<^verbatim>\<open>close\<close>;
  the map holds the other headers and neither \<^verbatim>\<open>Host\<close> nor \<^verbatim>\<open>Connection\<close>.
\<close>

lemma ReadRequest_p1_reference:
  assumes "ReadRequest_p1 canon br = (Inr req, b, br')"
  shows "\<exists>line br1 f0 f2. br = (line, None) # br1
       \<and> SplitN line CHR '' '' 3 = [f0, URL req, f2]
       \<and> Method req = ''GET'' \<and> Request.Proto req = ''HTTP/1.1''
       \<and> headerValue canon ''Host'' (headerBlock br1) = Some (Host req)
       \<and> Close req = (headerValue canon ''Connection'' (headerBlock br1) = Some ''close'')
       \<and> (\<forall>k. Request.Header req k =
                 (if k = ''Host'' \<or> k = ''Connection'' then None
                  else headerValue canon k (headerBlock br1)))"
proof (cases br)
  case Nil
  with assms show ?thesis by (simp add: ReadRequest_p1_def)
next
  case (Cons x br1)
  obtain line e where x: "x = (line, e)" by (cases x)
  show ?thesis
  proof (cases e)
    case (Some err)
    with assms Cons x show ?thesis by (simp add: ReadRequest_p1_def)
  next
    case None
    let ?init = "\<lambda>f0 f1 f2. \<lparr>Method = f0, URL = f1, Request.Proto = f2,
                   Request.Header = Map.empty, Host = [], Close = False\<rparr> :: headers Request"
    from assms Cons x None obtain f1 rq cc ch where
      sp: "SplitN line CHR '' '' 3 = [''GET'', f1, ''HTTP/1.1'']"
      and loop: "readHeaders_p1 canon br1 (?init ''GET'' f1 ''HTTP/1.1'') False False
                 = (Inr (rq, cc, ch), br')"
      and sh: "specialHeaders_p1 rq cc ch = Inr req"
      by (auto simp: ReadRequest_p1_def simp del: SplitN.simps
               split: list.splits if_splits prod.splits sum.splits)
    note s = specialHeaders_p1_Inr[OF sh]
    have r: "\<And>k. Request.Header rq k = headerValue canon k (headerBlock br1)"
      "Host rq = (case headerValue canon ''Host'' (headerBlock br1) of None \<Rightarrow> [] | Some v \<Rightarrow> v)"
      "cc = (headerValue canon ''Connection'' (headerBlock br1) \<noteq> None)"
      "ch = (headerValue canon ''Host'' (headerBlock br1) \<noteq> None)"
      "URL rq = f1" "Method rq = ''GET''" "Request.Proto rq = ''HTTP/1.1''" "Close rq = False"
      using readHeaders_p1_reference[OF loop] by (auto split: option.splits)
    from s r have host: "headerValue canon ''Host'' (headerBlock br1) = Some (Host req)"
      by (auto split: option.splits)
    from s r have cl:
      "Close req = (headerValue canon ''Connection'' (headerBlock br1) = Some ''close'')"
      by (auto simp: lookup_def split: option.splits)
    from s r have hd: "\<forall>k. Request.Header req k =
                 (if k = ''Host'' \<or> k = ''Connection'' then None
                  else headerValue canon k (headerBlock br1))"
      by auto
    from s r sp have "SplitN line CHR '' '' 3 = [''GET'', URL req, ''HTTP/1.1'']"
      "Method req = ''GET''" "Request.Proto req = ''HTTP/1.1''"
      by auto
    with Cons x None host cl hd show ?thesis by blast
  qed
qed

subsection \<open>The stored target\<close>

text \<open>
  C4. The claim: for every successfully parsed request the stored target is the TARGET
  field of the request line as the client sent it; the parser appends no
  \<^verbatim>\<open>index.html\<close> to a target that ends in a slash. The test \<^verbatim>\<open>DontExpandSlashHere\<close> of
  \<^verbatim>\<open>request_test.go\<close> asks the same of \<^verbatim>\<open>GET / HTTP/1.1\<close>. On that input the parser of
  \<^verbatim>\<open>src/pkg/tritonhttp/request.go\<close> returns the target \<^verbatim>\<open>/index.html\<close>.
\<close>

theorem C4_ReadRequest_pkg_expands_target:
  "ReadRequest_pkg [(''GET / HTTP/1.1'', None), (''Host: test'', None), ([], None)]
   = (Inr \<lparr>Method = ''GET'', URL = ''/index.html'', Proto = ''HTTP/1.1'',
             Header = [''Host'' \<mapsto> '' test''], Host = '' test'', Close = False\<rparr>,
      False, [])"
  by (simp add: parser_eval strings_eval)

text \<open>
  The parser of \<^verbatim>\<open>src/unnamed/part_001\<close> returns \<^verbatim>\<open>/\<close> there, as the test expects; for every
  input its target is the field as sent (\<open>ReadRequest_p1_reference\<close>).
\<close>

lemma ReadRequest_p1_keeps_target:
  "ReadRequest_p1 CanonicalHeaderKey
     [(''GET / HTTP/1.1'', None), (''Host: test'', None), ([], None)]
   = (Inr \<lparr>Method = ''GET'', URL = ''/'', Proto = ''HTTP/1.1'',
             Header = Map.empty, Host = ''test'', Close = False\<rparr>,
      True, [])"
  by (simp add: parser_eval strings_eval)

subsection \<open>\<open>bytesReceived\<close>\<close>

lemma ReadRequest_p1_bytesReceived:
  assumes "ReadRequest_p1 canon br = (r, b, br')"
  shows "b = bytesArrived br"
proof (cases br)
  case Nil
  with assms show ?thesis by (simp add: ReadRequest_p1_def bytesArrived_def)
next
  case (Cons x br1)
  obtain line e where x: "x = (line, e)" by (cases x)
  show ?thesis
  proof (cases e)
    case (Some err)
    with assms Cons x show ?thesis by (auto simp: ReadRequest_p1_def bytesArrived_def)
  next
    case None
    with assms Cons x show ?thesis
      by (auto simp: ReadRequest_p1_def bytesArrived_def simp del: SplitN.simps
               split: list.splits if_splits prod.splits sum.splits)
  qed
qed

lemma ReadRequest_pkg_bytesReceived:
  assumes "ReadRequest_pkg br = (Inl e, b, br')"
  shows "b = bytesArrived br"
proof (cases br)
  case Nil
  with assms show ?thesis by (simp add: ReadRequest_pkg_def bytesArrived_def)
next
  case (Cons x br1)
  obtain line e where x: "x = (line, e)" by (cases x)
  show ?thesis
  proof (cases e)
    case (Some err)
    with assms Cons x show ?thesis by (auto simp: ReadRequest_pkg_def bytesArrived_def)
  next
    case None
    with assms Cons x show ?thesis
      by (auto simp: ReadRequest_pkg_def bytesArrived_def simp del: SplitN.simps
               split: list.splits if_splits prod.splits sum.splits)
  qed
qed

lemma ReadRequest_p1_success_line:
  assumes "ReadRequest_p1 canon br = (Inr req, b, br')"
  shows "lineSuccessfullyRead br"
proof (cases br)
  case Nil
  with assms show ?thesis by (simp add: ReadRequest_p1_def)
next
  case (Cons x br1)
  obtain line e where x: "x = (line, e)" by (cases x)
  from assms Cons x show ?thesis
    by (cases e) (simp_all add: ReadRequest_p1_def lineSuccessfullyRead_def)
qed

text \<open>
  C8, as the claim states it: \<open>bytesReceived\<close> is true if and only if at least one line
  was read successfully, so it is false when the first read of the cycle fails with no
  line read. It fails when the first read times out after the bytes \<^verbatim>\<open>GE\<close> arrived: no
  line was read and both revisions return true.
\<close>

theorem C8_partial_first_line_counterexample:
  "ReadRequest_p1 CanonicalHeaderKey [(''GE'', Some Timeout)] = (Inl Timeout, True, [])
   \<and> ReadRequest_pkg [(''GE'', Some Timeout)] = (Inl Timeout, True, [])
   \<and> \<not> lineSuccessfullyRead [(''GE'', Some Timeout)]"
  by (simp add: ReadRequest_p1_def ReadRequest_pkg_def lineSuccessfullyRead_def)

text \<open>
  C8, amended: \<open>bytesReceived\<close> is true if and only if the first read of the cycle
  returned a line, or failed after some bytes of one had arrived. For the parser of
  \<^verbatim>\<open>src/unnamed/part_001\<close> this holds of every result; so the result is true on every
  successful parse and on every failure after the request line, and false when the first
  read fails with no byte read. For the parser of \<^verbatim>\<open>src/pkg/tritonhttp/request.go\<close> it
  holds of every failure; what that revision returns with a request is left out.
\<close>

theorem C8_bytesReceived_iff_bytes_arrived:
  "(ReadRequest_p1 canon br = (r, b, br') \<longrightarrow> b = bytesArrived br)
   \<and> (ReadRequest_p1 canon br = (Inr req, b, br') \<longrightarrow> b \<and> lineSuccessfullyRead br)
   \<and> (ReadRequest_pkg br = (Inl e, b, br') \<longrightarrow> b = bytesArrived br)"
proof -
  have 1: "ReadRequest_p1 canon br = (r, b, br') \<longrightarrow> b = bytesArrived br"
    using ReadRequest_p1_bytesReceived by blast
  have 2: "ReadRequest_p1 canon br = (Inr req, b, br') \<longrightarrow> b \<and> lineSuccessfullyRead br"
  proof
    assume a: "ReadRequest_p1 canon br = (Inr req, b, br')"
    then have l: "lineSuccessfullyRead br" by (rule ReadRequest_p1_success_line)
    then have "bytesArrived br"
      by (auto simp: lineSuccessfullyRead_def bytesArrived_def split: prod.splits)
    with ReadRequest_p1_bytesReceived[OF a] l show "b \<and> lineSuccessfullyRead br" by simp
  qed
  have 3: "ReadRequest_pkg br = (Inl e, b, br') \<longrightarrow> b = bytesArrived br"
    using ReadRequest_pkg_bytesReceived by blast
  from 1 2 3 show ?thesis by blast
qed

text \<open>
  The amended claim at three readers: a request that parses, a timeout in the header
  block after the request line, and a timeout before any byte.
\<close>

theorem C8_bytesReceived_witness:
  "ReadRequest_p1 CanonicalHeaderKey
     [(''GET /index.html HTTP/1.1'', None), (''Host: test'', None), ([], None)]
   = (Inr \<lparr>Method = ''GET'', URL = ''/index.html'', Proto = ''HTTP/1.1'',
             Header = Map.empty, Host = ''test'', Close = False\<rparr>, True, [])
   \<and> bytesArrived [(''GET /index.html HTTP/1.1'', None), (''Host: test'', None), ([], None)]
   \<and> ReadRequest_pkg [(''GET /index.html HTTP/1.1'', None), (''Host: te'', Some Timeout)]
     = (Inl Timeout, True, [])
   \<and> bytesArrived [(''GET /index.html HTTP/1.1'', None), (''Host: te'', Some Timeout)]
   \<and> ReadRequest_p1 CanonicalHeaderKey [([], Some Timeout)] = (Inl Timeout, False, [])
   \<and> \<not> bytesArrived [([], Some Timeout)]"
proof -
  let ?good = "[(''GET /index.html HTTP/1.1'', None), (''Host: test'', None), ([], None)]"
  let ?cut = "[(''GET /index.html HTTP/1.1'', None), (''Host: te'', Some Timeout)]"
  let ?idle = "[([], Some Timeout)] :: reader"
  let ?req = "\<lparr>Method = ''GET'', URL = ''/index.html'', Proto = ''HTTP/1.1'',
               Header = Map.empty, Host = ''test'', Close = False\<rparr> :: headers Request"
  have g: "ReadRequest_p1 CanonicalHeaderKey ?good = (Inr ?req, True, [])"
    by (simp add: parser_eval strings_eval)
  have c: "ReadRequest_pkg ?cut = (Inl Timeout, True, [])"
    by (simp add: parser_eval strings_eval)
  have i: "ReadRequest_p1 CanonicalHeaderKey ?idle = (Inl Timeout, False, [])"
    by (simp add: ReadRequest_p1_def)
  note main = C8_bytesReceived_iff_bytes_arrived
  from main[of CanonicalHeaderKey ?good "Inr ?req" True "[]"] g
  have 1: "bytesArrived ?good" by simp
  from main[of CanonicalHeaderKey ?cut _ _ _ _ Timeout] c
  have 2: "bytesArrived ?cut" by simp
  from main[of CanonicalHeaderKey ?idle "Inl Timeout" False "[]"] i
  have 3: "\<not> bytesArrived ?idle" by simp
  from g c i 1 2 3 show ?thesis by simp
qed

text \<open>
  What is left out above: with a request, the parser of
  \<^verbatim>\<open>src/pkg/tritonhttp/request.go\<close> returns its named result \<open>bytesReceived\<close>, which it
  never assigned, and not the local \<open>bytesRec\<close>.
\<close>

lemma ReadRequest_pkg_success_returns_false:
  "ReadRequest_pkg [(''GET /index.html HTTP/1.1'', None), (''Host: test'', None), ([], None)]
   = (Inr \<lparr>Method = ''GET'', URL = ''/index.html'', Proto = ''HTTP/1.1'',
             Header = [''Host'' \<mapsto> '' test''], Host = '' test'', Close = False\<rparr>,
      False, [])"
  by (simp add: parser_eval strings_eval)

subsection \<open>The special headers\<close>

text \<open>
  C5. The claim: the header map of a successfully parsed request holds neither the key
  \<^verbatim>\<open>Host\<close> nor the key \<^verbatim>\<open>Connection\<close>. The comment on \<^verbatim>\<open>Request.Header\<close> says so
  ("excluding Host and Connection"), and the test \<^verbatim>\<open>Basic\<close> of \<^verbatim>\<open>request_test.go\<close> expects
  the empty map. On the input of that test the parser of
  \<^verbatim>\<open>src/pkg/tritonhttp/request.go\<close>, which deletes \<^verbatim>\<open>Connection\<close> only, returns a map that
  holds \<^verbatim>\<open>Host\<close>.
\<close>

theorem C5_ReadRequest_pkg_keeps_Host_key:
  "(case ReadRequest_pkg
           [(''GET /index.html HTTP/1.1'', None), (''Host: test'', None), ([], None)] of
      (Inr req, b, br) \<Rightarrow> Request.Header req ''Host'' = Some '' test''
    | (Inl err, b, br) \<Rightarrow> False)"
  by (simp add: parser_eval strings_eval)

lemma ReadRequest_p1_drops_Host_key:
  "(case ReadRequest_p1 CanonicalHeaderKey
           [(''GET /index.html HTTP/1.1'', None), (''Host: test'', None), ([], None)] of
      (Inr req, b, br) \<Rightarrow> Request.Header req = Map.empty \<and> Host req = ''test''
    | (Inl err, b, br) \<Rightarrow> False)"
  by (simp add: parser_eval strings_eval)

text \<open>
  C6. The claim: when the header block ends and no \<^verbatim>\<open>Host\<close> header was read, parsing
  fails with the missing-host error and returns no request. The parser of
  \<^verbatim>\<open>src/pkg/tritonhttp/request.go\<close> has the comment "Check required headers" and no
  check under it: a request without headers parses, with the empty host.
\<close>

theorem C6_ReadRequest_pkg_accepts_missing_Host:
  "ReadRequest_pkg [(''GET /index.html HTTP/1.1'', None), ([], None)]
   = (Inr \<lparr>Method = ''GET'', URL = ''/index.html'', Proto = ''HTTP/1.1'',
             Header = Map.empty, Host = [], Close = False\<rparr>,
      False, [])"
  by (simp add: parser_eval strings_eval)

lemma ReadRequest_p1_rejects_missing_Host:
  "ReadRequest_p1 CanonicalHeaderKey [(''GET /index.html HTTP/1.1'', None), ([], None)]
   = (Inl MissingHost, True, [])"
  by (simp add: parser_eval strings_eval)

text \<open>
  C7. The claim: the close flag is true exactly when a \<^verbatim>\<open>Connection\<close> header was present
  and its value without the leading spaces is \<^verbatim>\<open>close\<close>; so \<^verbatim>\<open>Connection: close\<close> gives
  true. The test \<^verbatim>\<open>Close\<close> of \<^verbatim>\<open>request_test.go\<close> expects true on that header. The parser
  of \<^verbatim>\<open>src/pkg/tritonhttp/request.go\<close> compares the untrimmed value \<^verbatim>\<open>" close"\<close> with
  \<^verbatim>\<open>"close"\<close> and returns false.
\<close>

theorem C7_ReadRequest_pkg_misses_close:
  "ReadRequest_pkg
     [(''GET /index.html HTTP/1.1'', None), (''Host: test'', None),
      (''Connection: close'', None), ([], None)]
   = (Inr \<lparr>Method = ''GET'', URL = ''/index.html'', Proto = ''HTTP/1.1'',
             Header = [''Host'' \<mapsto> '' test''], Host = '' test'', Close = False\<rparr>,
      False, [])"
  by (simp add: parser_eval strings_eval)

text \<open>
  The parser of \<^verbatim>\<open>src/unnamed/part_001\<close> on the tests \<^verbatim>\<open>Close\<close>, \<^verbatim>\<open>SpaceAfterClose\<close> and
  \<^verbatim>\<open>AlternativeFormOfConnection\<close>.
\<close>

lemma ReadRequest_p1_close_flag:
  "ReadRequest_p1 CanonicalHeaderKey
     [(''GET /index.html HTTP/1.1'', None), (''Host: test'', None),
      (''Connection: close'', None), ([], None)]
   = (Inr \<lparr>Method = ''GET'', URL = ''/index.html'', Proto = ''HTTP/1.1'',
             Header = Map.empty, Host = ''test'', Close = True\<rparr>, True, [])"
  "ReadRequest_p1 CanonicalHeaderKey
     [(''GET /index.html HTTP/1.1'', None), (''Host: test'', None),
      (''connection:close  '', None), ([], None)]
   = (Inr \<lparr>Method = ''GET'', URL = ''/index.html'', Proto = ''HTTP/1.1'',
             Header = Map.empty, Host = ''test'', Close = False\<rparr>, True, [])"
  "ReadRequest_p1 CanonicalHeaderKey
     [(''GET /index.html HTTP/1.1'', None), (''Host: test'', None),
      (''connection: close'', None), ([], None)]
   = (Inr \<lparr>Method = ''GET'', URL = ''/index.html'', Proto = ''HTTP/1.1'',
             Header = Map.empty, Host = ''test'', Close = True\<rparr>, True, [])"
  by (simp_all add: parser_eval strings_eval)

section \<open>What the server answers\<close>

lemmas server_eval =
  HandleGoodRequest_pkg_def HandleGoodRequest_p0_def HandleNotFound_pkg_def
  HandleNotFound_p0_def HandleOK_def HandleBadRequest_def expandIndex_p0_def newResponse_def
  make_map_def mapassign_def deref_def Clean_def Join_def exampleWorld_def exampleRequest_def
  exampleServer_def Itoa_def Let_def SetReadDeadline_def Write_def newRequest_def

subsection \<open>The three builders\<close>

text \<open>
  What each builder returns: the status, the address of the response's map, and the
  heap, in which the maps that were there before are as they were.
\<close>

lemma HandleNotFound_pkg_props:
  assumes "HandleNotFound_pkg w res req h = (res', h')"
  shows "StatusCode res' = 404 \<and> Response.Header res' = Some (length h)
       \<and> length h' = Suc (length h)
       \<and> (\<forall>a < length h. h' ! a = h ! a)
       \<and> h' ! length h = [''Date'' \<mapsto> FormatTime w (Now w), ''Connection'' \<mapsto> ''close'']"
  using assms
  by (auto simp: HandleNotFound_pkg_def make_map_def mapassign_def nth_append)

lemma HandleBadRequest_props:
  assumes "HandleBadRequest w res h = (res', h')"
  shows "StatusCode res' = 400 \<and> Response.Header res' = Some (length h)
       \<and> length h' = Suc (length h)
       \<and> (\<forall>a < length h. h' ! a = h ! a)
       \<and> h' ! length h = [''Date'' \<mapsto> FormatTime w (Now w), ''Connection'' \<mapsto> ''close'']"
  using assms
  by (auto simp: HandleBadRequest_def make_map_def mapassign_def nth_append)

lemma HandleOK_props:
  assumes "HandleOK w res req path h = Inr (res', h')"
  shows "StatusCode res' = 200 \<and> Response.Header res' = Some (length h)
       \<and> length h' = Suc (length h)
       \<and> (\<forall>a < length h. h' ! a = h ! a)
       \<and> (h' ! length h) ''Date'' = Some (FormatTime w (Now w))"
  using assms
  by (auto simp: HandleOK_def make_map_def mapassign_def nth_append Let_def
           simp del: SplitN.simps split: stat_result.splits list.splits)

lemma HandleNotFound_p0_status:
  "HandleNotFound_p0 w res req h = Inr (res', h') \<Longrightarrow> StatusCode res' = 404"
  by (auto simp: HandleNotFound_p0_def Let_def split: option.splits)

subsection \<open>A target outside the document root\<close>

text \<open>
  C1. The claim: when the cleaned join of the document root and the target does not
  start with the document root, the answer is 404 and never 200, whether or not the
  path names a file. \<^verbatim>\<open>HandleGoodRequest\<close> of \<^verbatim>\<open>src/pkg/tritonhttp/response.go\<close> calls
  \<^verbatim>\<open>HandleNotFound\<close> in that case and does not return; the \<^verbatim>\<open>os.Stat\<close> that follows finds
  the file and \<^verbatim>\<open>HandleOK\<close> overwrites the answer. With the root \<^verbatim>\<open>/srv/www\<close> the target
  \<^verbatim>\<open>/../../etc/resolv.conf\<close> is answered with 200 and the file \<^verbatim>\<open>/etc/resolv.conf\<close>.
\<close>

theorem C1_HandleGoodRequest_pkg_serves_outside_root:
  "\<not> HasPrefix (Clean (Join (DocRoot exampleServer) ''/../../etc/resolv.conf''))
        (Clean (DocRoot exampleServer))
   \<and> map_sum id (\<lambda>(res, h). (StatusCode res, FilePath res))
        (HandleGoodRequest_pkg exampleServer
           (exampleWorld [(''/etc/resolv.conf'', \<lparr>IsDir = False, Size = 64, ModTime = 0\<rparr>)])
           (exampleRequest ''/../../etc/resolv.conf'' False) [Map.empty])
      = Inr (200, ''/etc/resolv.conf'')"
  by (simp add: server_eval strings_eval digits.simps)

text \<open>
  \<^verbatim>\<open>HandleGoodRequest\<close> of \<^verbatim>\<open>src/unnamed/part_000\<close> returns after \<^verbatim>\<open>HandleNotFound\<close>: on
  that input, and whenever the cleaned path does not start with the document root as
  it is configured.
\<close>

lemma HandleGoodRequest_p0_refuses_outside_root:
  "map_sum id (\<lambda>(res, req, h). (StatusCode res, FilePath res))
     (HandleGoodRequest_p0 exampleServer
        (exampleWorld [(''/etc/resolv.conf'', \<lparr>IsDir = False, Size = 64, ModTime = 0\<rparr>)])
        (exampleRequest ''/../../etc/resolv.conf'' False) [Map.empty])
   = Inr (404, [])"
  by (simp add: server_eval strings_eval)

lemma HandleGoodRequest_p0_outside_root:
  assumes "\<not> HasPrefix (Clean (DocRoot s @ URL (expandIndex_p0 req))) (DocRoot s)"
    and "HandleGoodRequest_p0 s w req h = Inr (res, req', h')"
  shows "StatusCode res = 404"
  using assms
  by (auto simp: HandleGoodRequest_p0_def map_sum_def split: sum.splits if_splits
           dest: HandleNotFound_p0_status)

lemma HandleGoodRequest_p0_outside_root_returns:
  assumes "\<not> HasPrefix (Clean (DocRoot s @ URL (expandIndex_p0 req))) (DocRoot s)"
    and "Request.Header req = Some a"
  shows "\<exists>res h'. HandleGoodRequest_p0 s w req h = Inr (res, expandIndex_p0 req, h')"
  using assms
  by (auto simp: HandleGoodRequest_p0_def HandleNotFound_p0_def expandIndex_p0_def Let_def)

subsection \<open>The headers of a response\<close>

text \<open>
  C2. The claim: every response has a \<^verbatim>\<open>Date\<close> header, and every response that is not a
  200 has \<^verbatim>\<open>Connection: close\<close>, a 404 whatever the request's close flag.
  \<^verbatim>\<open>HandleNotFound\<close> of \<^verbatim>\<open>src/unnamed/part_000\<close> sets \<^verbatim>\<open>Connection\<close> only under
  \<^verbatim>\<open>if req.Close\<close>: the 404 for a missing file, asked for without \<^verbatim>\<open>Connection: close\<close>,
  has a \<^verbatim>\<open>Date\<close> and no \<^verbatim>\<open>Connection\<close> header.
\<close>

theorem C2_HandleNotFound_p0_without_Connection:
  "map_sum id (\<lambda>(res, req, h). (StatusCode res, deref h (Response.Header res) ''Date'',
                                  deref h (Response.Header res) ''Connection''))
     (HandleGoodRequest_p0 exampleServer (exampleWorld [])
        (exampleRequest ''/missing.html'' False) [Map.empty])
   = Inr (404, Some ''Thu, 01 Jan 1970 00:00:00 GMT'', None)"
  by (simp add: server_eval strings_eval)

lemma HandleNotFound_pkg_with_Connection:
  "map_sum id (\<lambda>(res, h). (StatusCode res, deref h (Response.Header res) ''Date'',
                             deref h (Response.Header res) ''Connection''))
     (HandleGoodRequest_pkg exampleServer (exampleWorld [])
        (exampleRequest ''/missing.html'' False) [Map.empty])
   = Inr (404, Some ''Thu, 01 Jan 1970 00:00:00 GMT'', Some ''close'')"
  by (simp add: server_eval strings_eval)

text \<open>
  In \<^verbatim>\<open>src/pkg/tritonhttp/response.go\<close> every response of \<^verbatim>\<open>HandleGoodRequest\<close> has a
  \<^verbatim>\<open>Date\<close>; it is a 200 or has \<^verbatim>\<open>Connection: close\<close>; its map is a new one, and the maps
  that were in the heap before, the request's among them, are as they were.
\<close>

lemma HandleGoodRequest_pkg_headers:
  assumes "HandleGoodRequest_pkg s w req h = Inr (res, h')"
  shows "deref h' (Response.Header res) ''Date'' = Some (FormatTime w (Now w))
       \<and> (StatusCode res = 200
            \<or> deref h' (Response.Header res) ''Connection'' = Some ''close'')
       \<and> (\<forall>a < length h. h' ! a = h ! a)
       \<and> (\<exists>b. Response.Header res = Some b \<and> length h \<le> b)"
proof -
  obtain res1 h1 where first:
    "(if \<not> HasPrefix (Clean (Join (DocRoot s) (URL req))) (DocRoot s)
      then HandleNotFound_pkg w newResponse req h else (newResponse, h)) = (res1, h1)"
    by (cases "if \<not> HasPrefix (Clean (Join (DocRoot s) (URL req))) (DocRoot s)
      then HandleNotFound_pkg w newResponse req h else (newResponse, h)")
  have keep1: "length h \<le> length h1 \<and> (\<forall>a < length h. h1 ! a = h ! a)"
  proof (cases "HasPrefix (Clean (Join (DocRoot s) (URL req))) (DocRoot s)")
    case True
    with first show ?thesis by simp
  next
    case False
    with first have "HandleNotFound_pkg w newResponse req h = (res1, h1)" by simp
    from HandleNotFound_pkg_props[OF this] show ?thesis by simp
  qed
  from assms first have second:
    "(case Stat w (Clean (Join (DocRoot s) (URL req))) of
        ErrNotExist \<Rightarrow> Inr (HandleNotFound_pkg w res1 req h1)
      | ErrOther \<Rightarrow> Inl NilDereference
      | StatOK fi \<Rightarrow>
          if IsDir fi then Inr (HandleNotFound_pkg w res1 req h1)
          else HandleOK w res1 req (Clean (Join (DocRoot s) (URL req))) h1) = Inr (res, h')"
    by (simp add: HandleGoodRequest_pkg_def)
  then consider
      (nf) "HandleNotFound_pkg w res1 req h1 = (res, h')"
    | (ok) "HandleOK w res1 req (Clean (Join (DocRoot s) (URL req))) h1 = Inr (res, h')"
    by (auto split: stat_result.splits if_splits)
  then show ?thesis
  proof cases
    case nf
    from HandleNotFound_pkg_props[OF nf] keep1 show ?thesis
      by (auto simp: deref_def)
  next
    case ok
    from HandleOK_props[OF ok] keep1 show ?thesis
      by (auto simp: deref_def)
  qed
qed

text \<open>
  C9. The claim: the header map of a response is a fresh map, not the request's, and
  building the response leaves the request's map as it was. \<^verbatim>\<open>HandleNotFound\<close> of
  \<^verbatim>\<open>src/unnamed/part_000\<close> assigns \<^verbatim>\<open>res.Header = req.Header\<close> and then stores \<^verbatim>\<open>Date\<close>
  through it: after the 404 the response's map is the request's map (address 0), and
  the request's map, empty before, holds \<^verbatim>\<open>Date\<close>.
\<close>

theorem C9_HandleNotFound_p0_shares_request_map:
  "Request.Header (exampleRequest ''/missing.html'' False) = Some 0
   \<and> deref [Map.empty] (Some 0) ''Date'' = None
   \<and> map_sum id (\<lambda>(res, req, h). (Response.Header res, Request.Header req,
                                    deref h (Request.Header req) ''Date''))
        (HandleGoodRequest_p0 exampleServer (exampleWorld [])
           (exampleRequest ''/missing.html'' False) [Map.empty])
      = Inr (Some 0, Some 0, Some ''Thu, 01 Jan 1970 00:00:00 GMT'')"
  by (simp add: server_eval strings_eval)

lemma HandleNotFound_pkg_fresh_map:
  "map_sum id (\<lambda>(res, h). (Response.Header res, deref h (Some 0) ''Date''))
     (HandleGoodRequest_pkg exampleServer (exampleWorld [])
        (exampleRequest ''/missing.html'' False) [Map.empty])
   = Inr (Some 1, None)"
  by (simp add: server_eval strings_eval)

subsection \<open>The content type of a served file\<close>

text \<open>
  C10. The claim: building the 200 response succeeds for every file path, also one
  without a dot, and never reaches an index out of range. \<^verbatim>\<open>HandleOK\<close> (the same in both
  revisions) takes element \<^verbatim>\<open>[1]\<close> of \<^verbatim>\<open>strings.SplitN(path, ".", 2)\<close>, which has one
  element when the path has no dot: for the existing file \<^verbatim>\<open>/srv/www/README\<close> it panics,
  and so do both revisions of \<^verbatim>\<open>HandleGoodRequest\<close> on \<^verbatim>\<open>GET /README\<close>.
\<close>

theorem C10_HandleOK_panics_without_dot:
  "HandleOK (exampleWorld [(''/srv/www/README'', \<lparr>IsDir = False, Size = 64, ModTime = 0\<rparr>)])
     newResponse (exampleRequest ''/README'' False) ''/srv/www/README'' [Map.empty]
   = Inl IndexOutOfRange
   \<and> HandleGoodRequest_pkg exampleServer
        (exampleWorld [(''/srv/www/README'', \<lparr>IsDir = False, Size = 64, ModTime = 0\<rparr>)])
        (exampleRequest ''/README'' False) [Map.empty]
      = Inl IndexOutOfRange
   \<and> HandleGoodRequest_p0 exampleServer
        (exampleWorld [(''/srv/www/README'', \<lparr>IsDir = False, Size = 64, ModTime = 0\<rparr>)])
        (exampleRequest ''/README'' False) [Map.empty]
      = Inl IndexOutOfRange"
  by (simp add: server_eval strings_eval)

text \<open>
  Where the path has a dot, the text after its first dot is taken for the extension,
  directories included: with a collaborator that shows its argument, the file
  \<^verbatim>\<open>index.html\<close> under \<^verbatim>\<open>/srv/my.site\<close> is looked up as \<^verbatim>\<open>.site/index.html\<close>.
\<close>

lemma HandleOK_extension_from_first_dot:
  "map_sum id (\<lambda>(res, h). deref h (Response.Header res) ''Content-Type'')
     (HandleOK ((exampleWorld [(''/srv/my.site/index.html'',
                                \<lparr>IsDir = False, Size = 64, ModTime = 0\<rparr>)])
                 \<lparr>MIMETypeByExtension := (\<lambda>ext. ''type of '' @ ext)\<rparr>)
        newResponse (exampleRequest ''/index.html'' False) ''/srv/my.site/index.html''
        [Map.empty])
   = Inr (Some ''type of .site/index.html'')"
  by (simp add: server_eval strings_eval)

subsection \<open>A timeout in the middle of a request\<close>

text \<open>
  C3. The claim: when the read deadline passes and \<open>bytesReceived\<close> is true, the handler
  writes a 400 response and then closes. \<^verbatim>\<open>HandleConnection\<close> of
  \<^verbatim>\<open>src/pkg/tritonhttp/response.go\<close> builds the response in that branch and closes
  without writing it: after a request line and a timeout in the header block, nothing
  has been written to the closed connection.
\<close>

theorem C3_HandleConnection_pkg_closes_silently:
  "ReadRequest_pkg [(''GET /index.html HTTP/1.1'', None), (''Host: te'', Some Timeout)]
   = (Inl Timeout, True, [])
   \<and> HandleConnection_pkg exampleServer (exampleWorld []) []
        \<lparr>Reader = [(''GET /index.html HTTP/1.1'', None), (''Host: te'', Some Timeout)],
         Deadline = [], Written = [], Closed = False\<rparr>
      = Inr \<lparr>Reader = [], Deadline = [], Written = [], Closed = True\<rparr>"
  by (simp add: parser_eval server_eval strings_eval)

text \<open>\<^verbatim>\<open>HandleConnection\<close> of \<^verbatim>\<open>src/unnamed/part_000\<close> writes the 400 there.\<close>

lemma HandleConnection_p0_writes_400:
  "map_sum id (\<lambda>c. (map (\<lambda>(res, hd). (StatusCode res, hd ''Connection'')) (Written c), Closed c))
     (HandleConnection_p0 CanonicalHeaderKey exampleServer (exampleWorld []) []
        \<lparr>Reader = [(''GET /index.html HTTP/1.1'', None), (''Host: te'', Some Timeout)],
         Deadline = [], Written = [], Closed = False\<rparr>)
   = Inr ([(400, Some ''close'')], True)"
  by (simp add: parser_eval server_eval strings_eval)

text \<open>And so for every connection whose read times out with \<open>bytesReceived\<close> true.\<close>

lemma HandleConnection_p0_timeout:
  assumes "SetReadDeadline conn = (False, conn0)"
    and "ReadRequest_p1 canon (Reader conn0) = (Inl Timeout, True, br)"
  shows "HandleConnection_p0 canon s w h conn
         = Inr (conn0\<lparr>Reader := br,
                      Written := Written conn0 @
                        [(\<lparr>StatusCode = 400, Proto = ''HTTP/1.1'', Header = Some (length h),
                           Request = None, FilePath = []\<rparr>,
                          [''Date'' \<mapsto> FormatTime w (Now w), ''Connection'' \<mapsto> ''close''])],
                      Closed := True\<rparr>)"
  using assms
  by (simp add: HandleBadRequest_def make_map_def mapassign_def Write_def deref_def
        newResponse_def)

end
